theory Spec2Isabelle
  imports Complex_Main
begin

section \<open>The viewer of \<open>main.js\<close>: camera framing and constrained navigation\<close>

text \<open>
  The script keeps its state in module variables (\<open>camera\<close>, \<open>controls\<close>,
  \<open>isShiftDragging\<close>, \<open>previousY\<close>, \<open>t\<close>, here \<open>breathing_t\<close>) and changes it from event listeners and
  from the loader's callbacks. Here the state is one record, and every listener is a
  function from the state to the new state.

  JavaScript numbers are IEEE doubles; they are modelled as real numbers, so rounding is
  left out and \<open>Math.tan\<close>, \<open>Math.cos\<close>, \<open>Math.sin\<close>, \<open>Math.PI\<close> are the exact
  functions. A double may also be \<open>Infinity\<close>: the one place the program meets it, the
  upper distance limit of the orbit controller before a model is framed, is an option.
  The divisor \<open>2 tan (fov / 2)\<close> of the framing distance is not zero for a field of
  view strictly between 0 and 180 degrees, which is what every statement about framing
  asks for or derives from the start state.
\<close>

subsection \<open>Vectors\<close>

datatype vec3 = Vector3 (vx: real) (vy: real) (vz: real)

definition sub :: "vec3 \<Rightarrow> vec3 \<Rightarrow> vec3" where
  "sub a b = Vector3 (vx a - vx b) (vy a - vy b) (vz a - vz b)"

definition add :: "vec3 \<Rightarrow> vec3 \<Rightarrow> vec3" where
  "add a b = Vector3 (vx a + vx b) (vy a + vy b) (vz a + vz b)"

definition addScaledVector :: "vec3 \<Rightarrow> vec3 \<Rightarrow> real \<Rightarrow> vec3" where
  "addScaledVector p v k = Vector3 (vx p + vx v * k) (vy p + vy v * k) (vz p + vz v * k)"

definition vlength :: "vec3 \<Rightarrow> real" where
  "vlength v = sqrt (vx v * vx v + vy v * vy v + vz v * vz v)"

definition distanceTo :: "vec3 \<Rightarrow> vec3 \<Rightarrow> real" where
  "distanceTo a b = vlength (sub a b)"

definition normalize :: "vec3 \<Rightarrow> vec3" where
  "normalize v =
     (let l = vlength v
      in if l = 0 then v else Vector3 (vx v / l) (vy v / l) (vz v / l))"

subsection \<open>The state\<close>

text \<open>
  Spherical coordinates: a radius, the polar angle \<open>phi\<close> measured from the vertical (y)
  axis, and the azimuth \<open>theta\<close> measured around it.
\<close>

datatype spherical = Spherical (sph_radius: real) (sph_phi: real) (sph_theta: real)

datatype log_entry = Model_loaded_and_framed | Error_loading_model

text \<open>
  The baseline the orbit controller keeps for its reset command. The spec's words are
  "the pose and limits captured immediately after framing".
\<close>

record snapshot =
  position0 :: vec3
  target0 :: vec3
  minDistance0 :: real
  maxDistance0 :: "real option"

record viewer =
  camera_fov :: real
  camera_aspect :: real
  camera_near :: real
  camera_far :: real
  camera_position :: vec3
  camera_direction :: vec3
  controls_enabled :: bool
  controls_dampingFactor :: real
  controls_rotateSpeed :: real
  controls_minPolarAngle :: real
  controls_maxPolarAngle :: real
  controls_minAzimuthAngle :: real
  controls_maxAzimuthAngle :: real
  controls_target :: vec3
  controls_minDistance :: real
  controls_maxDistance :: "real option"
  controls_spherical :: spherical
  pending_theta :: real
  pending_phi :: real
  pending_scale :: real
  controls_saved :: snapshot
  isShiftDragging :: bool
  previousY :: real
  model_position :: vec3
  progress_hidden :: bool
  console :: "log_entry list"
  breathing_t :: real
  fog_radius :: real

text \<open>
  \<open>camera_direction\<close> is the camera's orientation, kept as the vector that
  \<open>camera.getWorldDirection\<close> returns (the camera has no parent, so world and local
  orientation agree). \<open>controls_spherical\<close> holds the spherical coordinates about the
  pivot at which the orbit controller last put the camera; its angle getters report
  them. \<open>pending_theta\<close>, \<open>pending_phi\<close> and \<open>pending_scale\<close> are the rotation and
  zoom the controller has received and not yet applied.
\<close>

record mouse_event =
  button :: int
  shiftKey :: bool
  clientY :: real

record bounding_volume =
  box_center :: vec3
  box_size :: vec3

subsection \<open>The state after the script's top level has run (lines 9 to 47)\<close>

text \<open>
  What the top level of the script fixes: the camera's constructor arguments (lines 26
  to 31), the controller's settings (lines 35 to 43) and the two drag variables (lines
  46 and 47). That a new controller is enabled is the library's default (the spec calls
  orbit mode the default mode). Every other field starts at whatever the library
  constructors leave there, and is not constrained.
\<close>

definition initial :: "viewer \<Rightarrow> bool" where
  "initial s =
     (camera_fov s = 75 \<and> camera_near s = 1 / 10 \<and> camera_far s = 10000 \<and>
      controls_enabled s \<and>
      controls_dampingFactor s = 1 / 10 \<and>
      controls_rotateSpeed s = 1 / 2 \<and>
      controls_minPolarAngle s = pi / 3 \<and>
      controls_maxPolarAngle s = pi / 3 \<and>
      controls_minAzimuthAngle s = - pi / 4 \<and>
      controls_maxAzimuthAngle s = pi / 4 \<and>
      \<not> isShiftDragging s \<and> previousY s = 0 \<and>
      \<not> progress_hidden s \<and> console s = [] \<and> breathing_t s = 0)"

subsection \<open>Shift and drag: the three mouse listeners (lines 46 to 71)\<close>

definition getWorldDirection :: "viewer \<Rightarrow> vec3" where
  "getWorldDirection s = camera_direction s"

definition mousedown :: "mouse_event \<Rightarrow> viewer \<Rightarrow> viewer" where
  "mousedown e s =
     (if button e = 0 \<and> shiftKey e
      then s\<lparr>controls_enabled := False, isShiftDragging := True, previousY := clientY e\<rparr>
      else s)"

definition mouseup :: "mouse_event \<Rightarrow> viewer \<Rightarrow> viewer" where
  "mouseup e s =
     (if isShiftDragging s
      then s\<lparr>controls_enabled := True, isShiftDragging := False\<rparr>
      else s)"

definition mousemove :: "mouse_event \<Rightarrow> viewer \<Rightarrow> viewer" where
  "mousemove e s =
     (if isShiftDragging s
      then
        (let deltaY = clientY e - previousY s;
             zoomSpeed = 1 / 2;
             direction = getWorldDirection s
         in s\<lparr>previousY := clientY e,
               camera_position :=
                 addScaledVector (camera_position s) direction (- deltaY * zoomSpeed)\<rparr>)
      else s)"

subsection \<open>What the script uses of the rendering library\<close>

text \<open>
  \<open>Math.atan2 (y, x)\<close> of JavaScript on real numbers, and the clamping of a value to
  an interval.
\<close>

definition atan2 :: "real \<Rightarrow> real \<Rightarrow> real" where
  "atan2 y x =
     (if 0 < x then arctan (y / x)
      else if x < 0 then (if 0 \<le> y then arctan (y / x) + pi else arctan (y / x) - pi)
      else if 0 < y then pi / 2
      else if y < 0 then - pi / 2
      else 0)"

definition clamp :: "real \<Rightarrow> real \<Rightarrow> real \<Rightarrow> real" where
  "clamp v lo hi = max lo (min hi v)"

text \<open>
  Modelled from the spec: the camera's orientation, which the rendering library's
  \<open>lookAt\<close> computes and which is not among the sources. The spec derives the
  orientation from the target; the model keeps the unit vector from the camera to the
  point looked at, and the library's fixed direction when the two coincide.
\<close>

definition lookAt :: "vec3 \<Rightarrow> vec3 \<Rightarrow> vec3" where
  "lookAt eye target =
     (if eye = target then Vector3 0 0 (- 1) else normalize (sub target eye))"

text \<open>
  Modelled from the spec: the spherical coordinates of the camera relative to its pivot
  (the library's \<open>Spherical\<close>, not among the sources). The glossary of the spec: the
  polar angle is the angle from the vertical axis, the azimuth the angle around it. A
  vector of length zero has no angles; its coordinates are taken as all zero.
\<close>

definition setFromVector3 :: "vec3 \<Rightarrow> spherical" where
  "setFromVector3 v =
     (let r = vlength v
      in if r = 0 then Spherical 0 0 0
         else Spherical r (arccos (clamp (vy v / r) (- 1) 1)) (atan2 (vx v) (vz v)))"

definition setFromSpherical :: "spherical \<Rightarrow> vec3" where
  "setFromSpherical sp =
     (let sinPhiRadius = sin (sph_phi sp) * sph_radius sp
      in Vector3 (sinPhiRadius * sin (sph_theta sp))
                 (cos (sph_phi sp) * sph_radius sp)
                 (sinPhiRadius * cos (sph_theta sp)))"

definition cameraSpherical :: "viewer \<Rightarrow> spherical" where
  "cameraSpherical s = setFromVector3 (sub (camera_position s) (controls_target s))"



definition getDistance :: "viewer \<Rightarrow> real" where
  "getDistance s = distanceTo (camera_position s) (controls_target s)"

text \<open>
  Modelled from the spec: the orbit controller's \<open>update\<close> (the library's
  \<open>OrbitControls\<close>, not among the sources). The spec: each update blends the current
  angle toward a target angle by a fixed damping factor; the polar angle is clamped to
  \<open>[minPolarAngle, maxPolarAngle]\<close>, the azimuth to \<open>[minAzimuthAngle,
  maxAzimuthAngle]\<close>, and the zoom distance to \<open>[minDistance, maxDistance]\<close>.
  \<open>pending_theta\<close> and \<open>pending_phi\<close> are what is left of the way to the target angle.
  The script calls \<open>update\<close> at the end of framing (line 121) and on every frame
  (line 197) without looking at \<open>controls.enabled\<close>; the model applies it at every
  call.
\<close>

definition clampDistance :: "viewer \<Rightarrow> real \<Rightarrow> real" where
  "clampDistance s r =
     max (controls_minDistance s)
         (case controls_maxDistance s of None \<Rightarrow> r | Some m \<Rightarrow> min m r)"

definition update_spherical :: "viewer \<Rightarrow> spherical" where
  "update_spherical s =
     (let sp = cameraSpherical s;
          theta = sph_theta sp + pending_theta s * controls_dampingFactor s;
          phi = sph_phi sp + pending_phi s * controls_dampingFactor s
      in Spherical
           (clampDistance s (sph_radius sp * pending_scale s))
           (max (controls_minPolarAngle s) (min (controls_maxPolarAngle s) phi))
           (max (controls_minAzimuthAngle s) (min (controls_maxAzimuthAngle s) theta)))"

definition controls_update :: "viewer \<Rightarrow> viewer" where
  "controls_update s =
     (let position = add (controls_target s) (setFromSpherical (update_spherical s))
      in s\<lparr>camera_position := position,
            camera_direction := lookAt position (controls_target s),
            controls_spherical := update_spherical s,
            pending_theta := pending_theta s * (1 - controls_dampingFactor s),
            pending_phi := pending_phi s * (1 - controls_dampingFactor s),
            pending_scale := 1\<rparr>)"

text \<open>
  Modelled from the spec: the orbit controller's own input listeners (not among the
  sources). The spec: drag rotates, scroll zooms, the rotation speed is a multiplier,
  and while orbit mode is disabled no rotation or zoom input is taken.
\<close>

definition orbit_rotate :: "real \<Rightarrow> real \<Rightarrow> viewer \<Rightarrow> viewer" where
  "orbit_rotate dtheta dphi s =
     (if controls_enabled s
      then s\<lparr>pending_theta := pending_theta s + dtheta * controls_rotateSpeed s,
             pending_phi := pending_phi s + dphi * controls_rotateSpeed s\<rparr>
      else s)"

definition orbit_zoom :: "real \<Rightarrow> viewer \<Rightarrow> viewer" where
  "orbit_zoom k s =
     (if controls_enabled s then s\<lparr>pending_scale := pending_scale s * k\<rparr> else s)"

text \<open>
  Modelled from the spec: the controller's \<open>saveState\<close> and \<open>reset\<close> (not among the
  sources). The spec: a reset command restores the camera to the pose and limits
  captured in the saved baseline snapshot.
\<close>

definition controls_saveState :: "viewer \<Rightarrow> viewer" where
  "controls_saveState s =
     s\<lparr>controls_saved :=
         \<lparr>position0 = camera_position s, target0 = controls_target s,
          minDistance0 = controls_minDistance s, maxDistance0 = controls_maxDistance s\<rparr>\<rparr>"

definition controls_reset :: "viewer \<Rightarrow> viewer" where
  "controls_reset s =
     (let b = controls_saved s
      in s\<lparr>camera_position := position0 b,
            camera_direction := lookAt (position0 b) (target0 b),
            controls_target := target0 b,
            controls_minDistance := minDistance0 b,
            controls_maxDistance := maxDistance0 b\<rparr>)"

subsection \<open>Framing: the loader's callbacks (lines 86 to 136)\<close>

definition maxDim :: "bounding_volume \<Rightarrow> real" where
  "maxDim box = max (max (vx (box_size box)) (vy (box_size box))) (vz (box_size box))"

definition framing_distance :: "bounding_volume \<Rightarrow> viewer \<Rightarrow> real" where
  "framing_distance box s =
     (let fov = camera_fov s * (pi / 180);
          distance = maxDim box / (2 * tan (fov / 2))
      in distance * (12 / 10))"

definition framing_position :: "real \<Rightarrow> vec3" where
  "framing_position distance =
     (let angle = pi / 4;
          zoomMultiplier = 18 / 100;
          heightMultiplier = 4 / 10
      in Vector3 (distance * zoomMultiplier * cos angle)
                 (distance * heightMultiplier)
                 (distance * zoomMultiplier * sin angle))"

text \<open>
  Lines 93 to 120: what the success callback itself computes and stores. The projection
  matrix that \<open>camera.updateProjectionMatrix\<close> (line 116) recomputes from \<open>near\<close> and
  \<open>far\<close> is not part of the state.
\<close>

definition frame_camera :: "bounding_volume \<Rightarrow> viewer \<Rightarrow> viewer" where
  "frame_camera box s =
     (let position = framing_position (framing_distance box s)
      in s\<lparr>model_position := sub (model_position s) (box_center box),
            camera_position := position,
            camera_direction := lookAt position (Vector3 0 0 0),
            camera_near := maxDim box / 100,
            camera_far := maxDim box * 100,
            controls_target := Vector3 0 0 0,
            controls_minDistance := maxDim box * (1 / 10),
            controls_maxDistance := Some (maxDim box * 5)\<rparr>)"

text \<open>
  Lines 88 to 126: the whole success callback. The page is taken to have the element
  \<open>progress-container\<close> that line 124 hides.
\<close>

definition onLoad :: "bounding_volume \<Rightarrow> viewer \<Rightarrow> viewer" where
  "onLoad box s =
     (let s1 = controls_saveState (controls_update (frame_camera box s))
      in s1\<lparr>progress_hidden := True,
             console := console s1 @ [Model_loaded_and_framed]\<rparr>)"

text \<open>Lines 133 to 135: the failure callback only logs.\<close>

definition onError :: "viewer \<Rightarrow> viewer" where
  "onError s = s\<lparr>console := console s @ [Error_loading_model]\<rparr>"

subsection \<open>Resize, reset and the frame loop (lines 182 to 205)\<close>

definition resize :: "real \<Rightarrow> real \<Rightarrow> viewer \<Rightarrow> viewer" where
  "resize innerWidth innerHeight s = s\<lparr>camera_aspect := innerWidth / innerHeight\<rparr>"

definition resetView :: "viewer \<Rightarrow> viewer" where
  "resetView s = controls_reset s"

definition animate :: "viewer \<Rightarrow> viewer" where
  "animate s =
     (let s1 = controls_update s;
          t1 = breathing_t s1 + 1 / 100
      in s1\<lparr>breathing_t := t1, fog_radius := 85 / 100 + sin t1 * (1 / 100)\<rparr>)"

subsection \<open>Events\<close>

text \<open>
  One constructor for each listener the script registers, one for the release of a key
  (its argument says whether the key is shift; the script registers no key listener),
  and two for the input the orbit controller listens to by itself: a drag by two angles
  and a scroll by a zoom factor. \<open>Frame\<close> is one run of \<open>animate\<close>, \<open>Loaded\<close> and
  \<open>LoadError\<close> are the loader's two final callbacks.
\<close>

datatype event =
    MouseDown mouse_event
  | MouseUp mouse_event
  | MouseMove mouse_event
  | KeyUp bool
  | OrbitRotate real real
  | OrbitZoom real
  | Frame
  | ResetClick
  | Resize real real
  | Loaded bounding_volume
  | LoadError

fun step :: "event \<Rightarrow> viewer \<Rightarrow> viewer" where
  "step (MouseDown e) s = mousedown e s"
| "step (MouseUp e) s = mouseup e s"
| "step (MouseMove e) s = mousemove e s"
| "step (KeyUp shift) s = s"
| "step (OrbitRotate dtheta dphi) s = orbit_rotate dtheta dphi s"
| "step (OrbitZoom k) s = orbit_zoom k s"
| "step Frame s = animate s"
| "step ResetClick s = resetView s"
| "step (Resize w h) s = resize w h s"
| "step (Loaded box) s = onLoad box s"
| "step LoadError s = onError s"

fun run :: "event list \<Rightarrow> viewer \<Rightarrow> viewer" where
  "run [] s = s"
| "run (e # es) s = run es (step e s)"

fun is_MouseUp :: "event \<Rightarrow> bool" where
  "is_MouseUp (MouseUp e) = True"
| "is_MouseUp ev = False"

fun is_Loaded :: "event \<Rightarrow> bool" where
  "is_Loaded (Loaded box) = True"
| "is_Loaded ev = False"

subsection \<open>A concrete start state\<close>

text \<open>
  The state of a viewer in a 16 to 9 window before any event, with the camera at the
  origin looking down the negative z axis and an unlimited zoom-out distance.
\<close>

definition startup_viewer :: viewer where
  "startup_viewer =
     \<lparr>camera_fov = 75, camera_aspect = 16 / 9, camera_near = 1 / 10, camera_far = 10000,
      camera_position = Vector3 0 0 0, camera_direction = Vector3 0 0 (- 1),
      controls_enabled = True, controls_dampingFactor = 1 / 10, controls_rotateSpeed = 1 / 2,
      controls_minPolarAngle = pi / 3, controls_maxPolarAngle = pi / 3,
      controls_minAzimuthAngle = - pi / 4, controls_maxAzimuthAngle = pi / 4,
      controls_target = Vector3 0 0 0, controls_minDistance = 0, controls_maxDistance = None,
      controls_spherical = Spherical 1 0 0,
      pending_theta = 0, pending_phi = 0, pending_scale = 1,
      controls_saved = \<lparr>position0 = Vector3 0 0 0, target0 = Vector3 0 0 0,
                         minDistance0 = 0, maxDistance0 = None\<rparr>,
      isShiftDragging = False, previousY = 0, model_position = Vector3 0 0 0,
      progress_hidden = False, console = [], breathing_t = 0, fog_radius = 85 / 100\<rparr>"

definition shift_press :: mouse_event where
  "shift_press = \<lparr>button = 0, shiftKey = True, clientY = 300\<rparr>"

definition cube10 :: bounding_volume where
  "cube10 = \<lparr>box_center = Vector3 0 0 0, box_size = Vector3 10 10 10\<rparr>"

definition flat0 :: bounding_volume where
  "flat0 = \<lparr>box_center = Vector3 0 0 0, box_size = Vector3 0 0 0\<rparr>"

subsection \<open>Settings no listener writes\<close>

text \<open>
  The camera's field of view and the controller's damping, speed and angle limits are
  assigned by the top level of the script (lines 27 and 35 to 43) and by nothing else.
\<close>

definition configured :: "viewer \<Rightarrow> bool" where
  "configured s =
     (camera_fov s = 75 \<and>
      controls_dampingFactor s = 1 / 10 \<and>
      controls_rotateSpeed s = 1 / 2 \<and>
      controls_minPolarAngle s = pi / 3 \<and>
      controls_maxPolarAngle s = pi / 3 \<and>
      controls_minAzimuthAngle s = - pi / 4 \<and>
      controls_maxAzimuthAngle s = pi / 4)"


section \<open>Properties\<close>

subsection \<open>Auxiliary facts\<close>

lemmas handler_defs = mousedown_def mouseup_def mousemove_def orbit_rotate_def orbit_zoom_def
  animate_def resetView_def resize_def onLoad_def onError_def controls_update_def
  controls_reset_def controls_saveState_def frame_camera_def

lemma initial_startup: "initial startup_viewer"
  by (simp add: initial_def startup_viewer_def)

lemma step_mode:
  "controls_enabled s = (\<not> isShiftDragging s) \<Longrightarrow>
   controls_enabled (step ev s) = (\<not> isShiftDragging (step ev s))"
  by (cases ev) (simp_all add: handler_defs Let_def)

lemma run_mode:
  "controls_enabled s = (\<not> isShiftDragging s) \<Longrightarrow>
   controls_enabled (run es s) = (\<not> isShiftDragging (run es s))"
  by (induction es arbitrary: s) (simp_all add: step_mode)

lemma step_keeps_dragging:
  "isShiftDragging s \<Longrightarrow> \<not> is_MouseUp ev \<Longrightarrow> isShiftDragging (step ev s)"
  by (cases ev) (simp_all add: handler_defs Let_def)

lemma run_keeps_dragging:
  "isShiftDragging s \<Longrightarrow> \<forall>ev\<in>set es. \<not> is_MouseUp ev \<Longrightarrow> isShiftDragging (run es s)"
  by (induction es arbitrary: s) (simp_all add: step_keeps_dragging)

lemma vlength_scaled:
  "vlength (Vector3 (vx v * k) (vy v * k) (vz v * k)) = \<bar>k\<bar> * vlength v"
proof -
  have "vx v * k * (vx v * k) + vy v * k * (vy v * k) + vz v * k * (vz v * k)
        = k\<^sup>2 * (vx v * vx v + vy v * vy v + vz v * vz v)"
    by (simp add: power2_eq_square algebra_simps)
  then show ?thesis
    by (simp add: vlength_def real_sqrt_mult)
qed

lemma distanceTo_addScaledVector:
  "distanceTo (addScaledVector p v k) p = \<bar>k\<bar> * vlength v"
  using vlength_scaled [of v k] by (simp add: distanceTo_def addScaledVector_def sub_def)

lemma initial_configured: "initial s \<Longrightarrow> configured s"
  by (simp add: initial_def configured_def)

lemma step_configured: "configured s \<Longrightarrow> configured (step ev s)"
  by (cases ev) (simp_all add: configured_def handler_defs Let_def)

lemma run_configured: "configured s \<Longrightarrow> configured (run es s)"
  by (induction es arbitrary: s) (simp_all add: step_configured)

lemma sub_origin: "sub v (Vector3 0 0 0) = v"
  by (cases v) (simp add: sub_def)

lemma sub_add_cancel: "sub (add c v) c = v"
  by (cases v) (simp add: sub_def add_def)

subsection \<open>Framing\<close>

lemma half_fov_range:
  assumes "0 < f" "f < 180"
  shows "0 < f * (pi / 180) / 2" "f * (pi / 180) / 2 < pi / 2"
  using assms pi_gt_zero by (simp_all add: field_simps)

lemma tan_half_fov_pos: "0 < f \<Longrightarrow> f < 180 \<Longrightarrow> 0 < tan (f * (pi / 180) / 2)"
  by (rule tan_gt_zero) (rule half_fov_range, assumption+)+

lemma framing_distance_pos:
  "0 < maxDim box \<Longrightarrow> 0 < camera_fov s \<Longrightarrow> camera_fov s < 180 \<Longrightarrow>
   0 < framing_distance box s"
  using tan_half_fov_pos [of "camera_fov s"]
  by (simp add: framing_distance_def Let_def)

lemma vlength_framing_position:
  "0 \<le> d \<Longrightarrow> vlength (framing_position d) = d * sqrt (481 / 2500)"
proof -
  assume d: "0 \<le> d"
  have sq: "sqrt 2 * sqrt 2 = 2" by simp
  have "vlength (framing_position d) = sqrt (d\<^sup>2 * (481 / 2500))"
    unfolding vlength_def framing_position_def Let_def vec3.sel cos_45 sin_45
    using sq by (simp add: power2_eq_square algebra_simps)
  also have "\<dots> = sqrt (d\<^sup>2) * sqrt (481 / 2500)"
    by (rule real_sqrt_mult)
  also have "\<dots> = d * sqrt (481 / 2500)"
    using d by simp
  finally show ?thesis .
qed

lemma sqrt_ratio_bounds: "43 / 100 < sqrt (481 / 2500)" "sqrt (481 / 2500) < 44 / 100"
proof -
  show "43 / 100 < sqrt (481 / 2500)"
    by (rule real_less_rsqrt) (simp add: power2_eq_square)
  show "sqrt (481 / 2500) < 44 / 100"
    by (rule real_less_lsqrt) (simp_all add: power2_eq_square)
qed

lemma frame_camera_distance:
  "0 \<le> framing_distance box s \<Longrightarrow>
   distanceTo (camera_position (frame_camera box s)) (controls_target (frame_camera box s))
     = framing_distance box s * sqrt (481 / 2500)"
proof -
  assume d: "0 \<le> framing_distance box s"
  show ?thesis
    using vlength_framing_position [OF d]
    by (simp add: distanceTo_def frame_camera_def Let_def sub_origin)
qed

text \<open>
  Claim C1, as amended. For a bounding volume with \<open>maxDim > 0\<close> and a field of view
  strictly between 0 and 180 degrees, the framing distance \<open>maxDim / (2 tan (fov / 2)) *
  1.2\<close> is positive, and the camera position that framing sets (lines 107 to 111) lies at
  \<open>sqrt (0.18\<^sup>2 + 0.4\<^sup>2)\<close> times that distance from the target: between 0.43 and 0.44
  times the framing distance.
\<close>

theorem C1_framed_distance:
  "0 < maxDim box \<Longrightarrow> 0 < camera_fov s \<Longrightarrow> camera_fov s < 180 \<Longrightarrow>
     0 < framing_distance box s \<and>
     distanceTo (camera_position (frame_camera box s)) (controls_target (frame_camera box s))
       = framing_distance box s * sqrt (481 / 2500) \<and>
     43 / 100 * framing_distance box s
       < distanceTo (camera_position (frame_camera box s)) (controls_target (frame_camera box s)) \<and>
     distanceTo (camera_position (frame_camera box s)) (controls_target (frame_camera box s))
       < 44 / 100 * framing_distance box s"
proof -
  assume a: "0 < maxDim box" "0 < camera_fov s" "camera_fov s < 180"
  have d: "0 < framing_distance box s"
    using a by (rule framing_distance_pos)
  have eq: "distanceTo (camera_position (frame_camera box s))
              (controls_target (frame_camera box s))
            = framing_distance box s * sqrt (481 / 2500)"
    using d by (simp add: frame_camera_distance)
  show ?thesis
    unfolding eq using d sqrt_ratio_bounds by (simp add: mult.commute)
qed

theorem C1_framed_distance_witness:
  "0 < maxDim cube10 \<and> 0 < camera_fov startup_viewer \<and> camera_fov startup_viewer < 180 \<and>
   distanceTo (camera_position (frame_camera cube10 startup_viewer))
     (controls_target (frame_camera cube10 startup_viewer))
     < 44 / 100 * framing_distance cube10 startup_viewer"
proof -
  have h: "0 < maxDim cube10" "0 < camera_fov startup_viewer" "camera_fov startup_viewer < 180"
    by (simp_all add: maxDim_def cube10_def startup_viewer_def)
  show ?thesis
    using h C1_framed_distance [OF h] by blast
qed

text \<open>
  Claim C1 as stated fails: for the cube of side 10 at the script's field of view of 75
  degrees the framed camera is closer to the target than 0.9 times the framing
  distance, and also closer than 0.9 times the distance before the 1.2 margin.
\<close>

theorem C1_band_counterexample:
  "0 < maxDim cube10 \<and> 0 < camera_fov startup_viewer \<and> camera_fov startup_viewer < 180 \<and>
   \<not> (9 / 10 * framing_distance cube10 startup_viewer
        \<le> distanceTo (camera_position (frame_camera cube10 startup_viewer))
             (controls_target (frame_camera cube10 startup_viewer)) \<and>
      distanceTo (camera_position (frame_camera cube10 startup_viewer))
             (controls_target (frame_camera cube10 startup_viewer))
        \<le> 13 / 10 * framing_distance cube10 startup_viewer) \<and>
   distanceTo (camera_position (frame_camera cube10 startup_viewer))
        (controls_target (frame_camera cube10 startup_viewer))
     < 9 / 10 * (framing_distance cube10 startup_viewer / (12 / 10))"
proof -
  have dim: "0 < maxDim cube10"
    by (simp add: maxDim_def cube10_def)
  have fov: "0 < camera_fov startup_viewer" "camera_fov startup_viewer < 180"
    by (simp_all add: startup_viewer_def)
  have d: "0 < framing_distance cube10 startup_viewer"
    using dim fov by (rule framing_distance_pos)
  have eq: "distanceTo (camera_position (frame_camera cube10 startup_viewer))
              (controls_target (frame_camera cube10 startup_viewer))
            = framing_distance cube10 startup_viewer * sqrt (481 / 2500)"
    using d by (simp add: frame_camera_distance)
  have "framing_distance cube10 startup_viewer * sqrt (481 / 2500)
        < framing_distance cube10 startup_viewer * (3 / 4)"
    using d sqrt_ratio_bounds(2) by simp
  then show ?thesis
    unfolding eq using d dim fov by simp
qed

lemma framing_distance_degenerate: "maxDim box = 0 \<Longrightarrow> framing_distance box s = 0"
  by (simp add: framing_distance_def Let_def)

lemma framing_position_zero: "framing_position 0 = Vector3 0 0 0"
  by (simp add: framing_position_def Let_def)

lemma onLoad_installs:
  "camera_near (onLoad box s) = maxDim box / 100"
  "camera_far (onLoad box s) = maxDim box * 100"
  "controls_minDistance (onLoad box s) = maxDim box * (1 / 10)"
  "controls_maxDistance (onLoad box s) = Some (maxDim box * 5)"
  "progress_hidden (onLoad box s)"
  "console (onLoad box s) = console s @ [Model_loaded_and_framed]"
  by (simp_all add: onLoad_def controls_saveState_def controls_update_def frame_camera_def Let_def)

text \<open>
  Claim C2, as amended. The success callback has no test of the bounding volume. In
  every state the script reaches, a load whose bounding volume has \<open>maxDim = 0\<close> is
  framed like any other: the divisor \<open>2 tan (fov / 2)\<close> of the distance is not zero
  and the framing distance is 0, the camera is put on the target at the origin, \<open>near\<close>,
  \<open>far\<close>, \<open>minDistance\<close> and \<open>maxDistance\<close> are all set to 0, the loading indicator is
  hidden and success is logged.
\<close>

theorem C2_degenerate_is_framed:
  "initial s0 \<Longrightarrow> maxDim box = 0 \<Longrightarrow>
     2 * tan (camera_fov (run es s0) * (pi / 180) / 2) \<noteq> 0 \<and>
     framing_distance box (run es s0) = 0 \<and>
     camera_position (frame_camera box (run es s0)) = Vector3 0 0 0 \<and>
     controls_target (frame_camera box (run es s0)) = Vector3 0 0 0 \<and>
     camera_near (onLoad box (run es s0)) = 0 \<and>
     camera_far (onLoad box (run es s0)) = 0 \<and>
     controls_minDistance (onLoad box (run es s0)) = 0 \<and>
     controls_maxDistance (onLoad box (run es s0)) = Some 0 \<and>
     progress_hidden (onLoad box (run es s0)) \<and>
     console (onLoad box (run es s0)) = console (run es s0) @ [Model_loaded_and_framed]"
proof -
  assume init: "initial s0" and z: "maxDim box = 0"
  let ?s = "run es s0"
  have "configured ?s"
    using init by (simp add: initial_configured run_configured)
  then have fov: "0 < camera_fov ?s" "camera_fov ?s < 180"
    by (simp_all add: configured_def)
  have divisor: "2 * tan (camera_fov ?s * (pi / 180) / 2) \<noteq> 0"
    using tan_half_fov_pos [OF fov] by simp
  have dist: "framing_distance box ?s = 0"
    using z by (rule framing_distance_degenerate)
  have pos: "camera_position (frame_camera box ?s) = Vector3 0 0 0"
    using dist by (simp add: frame_camera_def Let_def framing_position_zero)
  have tgt: "controls_target (frame_camera box ?s) = Vector3 0 0 0"
    by (simp add: frame_camera_def Let_def)
  show ?thesis
    using divisor dist pos tgt z by (simp add: onLoad_installs)
qed

theorem C2_degenerate_is_framed_witness:
  "initial startup_viewer \<and> maxDim flat0 = 0 \<and>
   camera_position (frame_camera flat0 (run [Frame] startup_viewer)) = Vector3 0 0 0 \<and>
   camera_far (onLoad flat0 (run [Frame] startup_viewer)) = 0 \<and>
   progress_hidden (onLoad flat0 (run [Frame] startup_viewer))"
proof -
  have h: "initial startup_viewer" "maxDim flat0 = 0"
    by (simp_all add: initial_startup maxDim_def flat0_def)
  show ?thesis
    using h C2_degenerate_is_framed [OF h, of "[Frame]"] by blast
qed

text \<open>
  Claim C2 as stated fails: for a bounding volume of size \<open>(0, 0, 0)\<close> the success
  callback does not end in the state the failure callback leaves; it installs the
  clipping planes and distance limits computed from the zero size, hides the loading
  indicator and logs success.
\<close>

theorem C2_no_detection_counterexample:
  "maxDim flat0 = 0 \<and>
   onLoad flat0 startup_viewer \<noteq> onError startup_viewer \<and>
   camera_near (onLoad flat0 startup_viewer) = 0 \<and>
   camera_far (onLoad flat0 startup_viewer) = 0 \<and>
   controls_minDistance (onLoad flat0 startup_viewer) = 0 \<and>
   controls_maxDistance (onLoad flat0 startup_viewer) = Some 0 \<and>
   progress_hidden (onLoad flat0 startup_viewer) \<and>
   console (onLoad flat0 startup_viewer) = [Model_loaded_and_framed]"
proof -
  have z: "maxDim flat0 = 0"
    by (simp add: maxDim_def flat0_def)
  have hid: "\<not> progress_hidden (onError startup_viewer)"
    by (simp add: onError_def startup_viewer_def)
  have ne: "onLoad flat0 startup_viewer \<noteq> onError startup_viewer"
    using hid onLoad_installs(5) [of flat0 startup_viewer] by metis
  have c: "console startup_viewer = []"
    by (simp add: startup_viewer_def)
  show ?thesis
    using z ne c by (simp add: onLoad_installs)
qed

lemma sin_75: "sin (5 * pi / 12) = (sqrt 6 + sqrt 2) / 4"
proof -
  have "5 * pi / 12 = pi / 4 + pi / 6" by simp
  then have "sin (5 * pi / 12) = sin (pi / 4) * cos (pi / 6) + cos (pi / 4) * sin (pi / 6)"
    by (simp only: sin_add)
  also have "\<dots> = (sqrt 2 * sqrt 3 + sqrt 2) / 4"
    by (simp add: sin_45 cos_45 sin_30 cos_30 field_simps)
  also have "sqrt 2 * sqrt 3 = sqrt 6"
    by (simp flip: real_sqrt_mult)
  finally show ?thesis .
qed

lemma cos_75: "cos (5 * pi / 12) = (sqrt 6 - sqrt 2) / 4"
proof -
  have "5 * pi / 12 = pi / 4 + pi / 6" by simp
  then have "cos (5 * pi / 12) = cos (pi / 4) * cos (pi / 6) - sin (pi / 4) * sin (pi / 6)"
    by (simp only: cos_add)
  also have "\<dots> = (sqrt 2 * sqrt 3 - sqrt 2) / 4"
    by (simp add: sin_45 cos_45 sin_30 cos_30 field_simps)
  also have "sqrt 2 * sqrt 3 = sqrt 6"
    by (simp flip: real_sqrt_mult)
  finally show ?thesis .
qed

lemma sqrt2_bounds: "14142 / 10000 < sqrt 2" "sqrt 2 < 14143 / 10000"
proof -
  show "14142 / 10000 < sqrt 2"
    by (rule real_less_rsqrt) (simp add: power2_eq_square)
  show "sqrt 2 < 14143 / 10000"
    by (rule real_less_lsqrt) (simp_all add: power2_eq_square)
qed

lemma sqrt6_bounds: "24494 / 10000 < sqrt 6" "sqrt 6 < 24495 / 10000"
proof -
  show "24494 / 10000 < sqrt 6"
    by (rule real_less_rsqrt) (simp add: power2_eq_square)
  show "sqrt 6 < 24495 / 10000"
    by (rule real_less_lsqrt) (simp_all add: power2_eq_square)
qed

lemma quarter_cancel: "(a / 4) / (b / 4) = a / (b::real)"
  by (cases "b = 0") simp_all

lemma tan_37_5: "tan (5 * pi / 24) = (sqrt 6 + sqrt 2) / (sqrt 6 - sqrt 2 + 4)"
proof -
  have h: "2 * (5 * pi / 24) = 5 * pi / 12" by simp
  have "tan (5 * pi / 24) = sin (5 * pi / 12) / (cos (5 * pi / 12) + 1)"
    using tan_half [of "5 * pi / 24"] unfolding h .
  also have "\<dots> = ((sqrt 6 + sqrt 2) / 4) / ((sqrt 6 - sqrt 2 + 4) / 4)"
    unfolding sin_75 cos_75 by (simp add: add_divide_distrib)
  also have "\<dots> = (sqrt 6 + sqrt 2) / (sqrt 6 - sqrt 2 + 4)"
    by (rule quarter_cancel)
  finally show ?thesis .
qed

lemma framing_distance_cube10:
  "framing_distance cube10 startup_viewer = 6 * (sqrt 6 - sqrt 2 + 4) / (sqrt 6 + sqrt 2)"
proof -
  have h: "75 * (pi / 180) / 2 = 5 * pi / 24" by simp
  have "framing_distance cube10 startup_viewer
        = 10 / (2 * tan (75 * (pi / 180) / 2)) * (12 / 10)"
    by (simp add: framing_distance_def maxDim_def cube10_def startup_viewer_def Let_def)
  also have "\<dots> = 6 / tan (5 * pi / 24)"
    unfolding h by simp
  also have "\<dots> = 6 * (sqrt 6 - sqrt 2 + 4) / (sqrt 6 + sqrt 2)"
    unfolding tan_37_5 by simp
  finally show ?thesis .
qed

lemma framing_distance_cube10_bounds:
  "781 / 100 < framing_distance cube10 startup_viewer"
  "framing_distance cube10 startup_viewer < 783 / 100"
proof -
  have pos: "0 < sqrt 6 + sqrt 2"
    using sqrt2_bounds sqrt6_bounds by linarith
  show "781 / 100 < framing_distance cube10 startup_viewer"
    unfolding framing_distance_cube10
    using pos sqrt2_bounds sqrt6_bounds by (simp add: pos_less_divide_eq)
  show "framing_distance cube10 startup_viewer < 783 / 100"
    unfolding framing_distance_cube10
    using pos sqrt2_bounds sqrt6_bounds by (simp add: pos_divide_less_eq)
qed

text \<open>
  Claim C3, as amended. For the bounding volume of size \<open>(10, 10, 10)\<close> and the field
  of view of 75 degrees, the framing distance \<open>10 / (2 tan 37.5\<degree>) * 1.2\<close> is about
  7.82 (between 7.81 and 7.83), \<open>minDistance\<close> is 1, \<open>maxDistance\<close> is 50, \<open>near\<close> is
  0.1 and \<open>far\<close> is 1000.
\<close>

theorem C3_cube10_scenario:
  "781 / 100 < framing_distance cube10 startup_viewer \<and>
   framing_distance cube10 startup_viewer < 783 / 100 \<and>
   controls_minDistance (frame_camera cube10 startup_viewer) = 1 \<and>
   controls_maxDistance (frame_camera cube10 startup_viewer) = Some 50 \<and>
   camera_near (frame_camera cube10 startup_viewer) = 1 / 10 \<and>
   camera_far (frame_camera cube10 startup_viewer) = 1000"
proof -
  have m: "maxDim cube10 = 10"
    by (simp add: maxDim_def cube10_def)
  show ?thesis
    using framing_distance_cube10_bounds m by (simp add: frame_camera_def Let_def)
qed

text \<open>
  Claim C3 as stated fails in its first number: the framing distance of that scenario
  is not within one half of 15.5.
\<close>

theorem C3_distance_counterexample:
  "\<not> \<bar>framing_distance cube10 startup_viewer - 155 / 10\<bar> \<le> 1 / 2"
  using framing_distance_cube10_bounds(2) by simp

lemma atan2_diag: "0 < a \<Longrightarrow> atan2 a a = pi / 4"
  by (simp add: atan2_def arctan_one)

lemma framing_position_xz:
  "vx (framing_position d) = d * (18 / 100) * (sqrt 2 / 2)"
  "vz (framing_position d) = d * (18 / 100) * (sqrt 2 / 2)"
  by (simp_all add: framing_position_def Let_def cos_45 sin_45)

lemma azimuth_framing_position:
  "0 < d \<Longrightarrow> sph_theta (setFromVector3 (framing_position d)) = pi / 4"
proof -
  assume d: "0 < d"
  have len: "vlength (framing_position d) \<noteq> 0"
    using vlength_framing_position [of d] d sqrt_ratio_bounds(1) by simp
  have pos: "0 < d * (18 / 100) * (sqrt 2 / 2)"
    using d by simp
  show ?thesis
    using len atan2_diag [OF pos]
    by (simp add: setFromVector3_def Let_def framing_position_xz)
qed

text \<open>
  In exact arithmetic the position that framing sets has equal positive x and z
  components, so its azimuth is \<open>\<pi> / 4\<close>, the value of \<open>maxAzimuthAngle\<close>. The script
  computes the two components in doubles, from \<open>Math.cos\<close> and \<open>Math.sin\<close> of
  \<open>Math.PI / 4\<close>, which need not round to the same double; whether the two azimuths
  coincide exactly there is a matter of rounding, and nothing is stated about it.
\<close>

lemma frame_camera_azimuth_exact:
  "0 < framing_distance box s \<Longrightarrow>
   sph_theta (cameraSpherical (frame_camera box s)) = pi / 4"
  using azimuth_framing_position [of "framing_distance box s"]
  by (simp add: cameraSpherical_def frame_camera_def Let_def sub_origin)

subsection \<open>The shift-drag dolly\<close>

text \<open>
  Claim C4. While the shift-drag flag is set, a mouse move at vertical coordinate
  \<open>clientY\<close> adds to the camera position the camera's forward vector scaled by
  \<open>- (clientY - previousY) * 0.5\<close>, and stores \<open>clientY\<close> in \<open>previousY\<close>. A move by
  \<open>- 40\<close> adds 20 times the forward vector, a move by \<open>40\<close> subtracts 20 times the
  forward vector; with a forward vector of length one the camera travels half the
  absolute vertical move.
\<close>

theorem C4_mousemove_dolly:
  "isShiftDragging s \<Longrightarrow>
     camera_position (mousemove e s) =
       addScaledVector (camera_position s) (getWorldDirection s)
         (- (clientY e - previousY s) * (1 / 2)) \<and>
     previousY (mousemove e s) = clientY e \<and>
     (clientY e - previousY s = - 40 \<longrightarrow>
        camera_position (mousemove e s) =
          addScaledVector (camera_position s) (getWorldDirection s) 20) \<and>
     (clientY e - previousY s = 40 \<longrightarrow>
        camera_position (mousemove e s) =
          addScaledVector (camera_position s) (getWorldDirection s) (- 20)) \<and>
     (vlength (getWorldDirection s) = 1 \<longrightarrow>
        distanceTo (camera_position (mousemove e s)) (camera_position s) =
          \<bar>clientY e - previousY s\<bar> * (1 / 2))"
proof -
  assume drag: "isShiftDragging s"
  let ?k = "- (clientY e - previousY s) * (1 / 2)"
  have pos: "camera_position (mousemove e s) =
      addScaledVector (camera_position s) (getWorldDirection s) ?k"
    using drag unfolding mousemove_def Let_def by simp
  have prev: "previousY (mousemove e s) = clientY e"
    using drag unfolding mousemove_def Let_def by simp
  have up: "clientY e - previousY s = - 40 \<Longrightarrow> ?k = 20" by simp
  have down: "clientY e - previousY s = 40 \<Longrightarrow> ?k = - 20" by simp
  have len: "\<bar>?k\<bar> = \<bar>clientY e - previousY s\<bar> * (1 / 2)" by simp
  show ?thesis
    unfolding pos using prev up down len
    by (simp add: distanceTo_addScaledVector del: mult_minus_left)
qed

theorem C4_mousemove_dolly_witness:
  "isShiftDragging (mousedown shift_press startup_viewer) \<and>
   camera_position
     (mousemove \<lparr>button = 0, shiftKey = True, clientY = 260\<rparr>
        (mousedown shift_press startup_viewer))
     = Vector3 0 0 (- 20) \<and>
   previousY
     (mousemove \<lparr>button = 0, shiftKey = True, clientY = 260\<rparr>
        (mousedown shift_press startup_viewer)) = 260"
  using C4_mousemove_dolly
    [of "mousedown shift_press startup_viewer"
        "\<lparr>button = 0, shiftKey = True, clientY = 260\<rparr>"]
  by (simp add: mousedown_def shift_press_def startup_viewer_def addScaledVector_def
        getWorldDirection_def)

subsection \<open>The two input modes\<close>

text \<open>
  Claim C8. From the state the script's top level leaves, after every sequence of
  events the orbit controller is enabled exactly when the shift-drag flag is not set:
  the two input modes are never both active and never both inactive.
\<close>

theorem C8_modes_exclusive:
  "initial s0 \<Longrightarrow> controls_enabled (run es s0) = (\<not> isShiftDragging (run es s0))"
proof -
  assume "initial s0"
  then have "controls_enabled s0 = (\<not> isShiftDragging s0)"
    by (simp add: initial_def)
  then show ?thesis
    by (rule run_mode)
qed

theorem C8_modes_exclusive_witness:
  "initial startup_viewer \<and>
   controls_enabled
     (run [MouseDown shift_press,
           MouseMove \<lparr>button = 0, shiftKey = True, clientY = 260\<rparr>] startup_viewer)
   = (\<not> isShiftDragging
     (run [MouseDown shift_press,
           MouseMove \<lparr>button = 0, shiftKey = True, clientY = 260\<rparr>] startup_viewer))"
  using initial_startup
    C8_modes_exclusive [OF initial_startup,
      of "[MouseDown shift_press,
           MouseMove \<lparr>button = 0, shiftKey = True, clientY = 260\<rparr>]"]
  by (rule conjI)

text \<open>
  Claim C10. While the shift-drag flag is set, a mouse-up clears it and enables the
  orbit controller again, whatever its button and whether or not shift is still held; a
  key event changes nothing, since the script has no key listener; and after any events
  that contain no mouse-up the flag is still set and a mouse move still translates the
  camera along its forward vector, whether or not the move carries the shift key.
\<close>

theorem C10_exit_only_on_mouseup:
  "isShiftDragging s \<Longrightarrow>
     (\<not> isShiftDragging (step (MouseUp e) s) \<and> controls_enabled (step (MouseUp e) s)) \<and>
     step (KeyUp k) s = s \<and>
     ((\<forall>ev\<in>set es. \<not> is_MouseUp ev) \<longrightarrow>
        isShiftDragging (run es s) \<and>
        camera_position (step (MouseMove m) (run es s)) =
          addScaledVector (camera_position (run es s)) (getWorldDirection (run es s))
            (- (clientY m - previousY (run es s)) * (1 / 2)))"
proof -
  assume drag: "isShiftDragging s"
  have up: "\<not> isShiftDragging (step (MouseUp e) s) \<and> controls_enabled (step (MouseUp e) s)"
    using drag by (simp add: mouseup_def)
  have later: "camera_position (step (MouseMove m) (run es s)) =
          addScaledVector (camera_position (run es s)) (getWorldDirection (run es s))
            (- (clientY m - previousY (run es s)) * (1 / 2))"
    if "isShiftDragging (run es s)"
    using that unfolding step.simps mousemove_def Let_def by simp
  show ?thesis
    using up later run_keeps_dragging [OF drag, of es] by simp
qed

theorem C10_exit_only_on_mouseup_witness:
  "isShiftDragging (mousedown shift_press startup_viewer) \<and>
   controls_enabled
     (step (MouseUp \<lparr>button = 2, shiftKey = True, clientY = 300\<rparr>)
        (mousedown shift_press startup_viewer)) \<and>
   camera_position
     (step (MouseMove \<lparr>button = 0, shiftKey = False, clientY = 260\<rparr>)
        (run [KeyUp True] (mousedown shift_press startup_viewer)))
     = Vector3 0 0 (- 20)"
  using C10_exit_only_on_mouseup
    [of "mousedown shift_press startup_viewer"
        "\<lparr>button = 2, shiftKey = True, clientY = 300\<rparr>" True "[KeyUp True]"
        "\<lparr>button = 0, shiftKey = False, clientY = 260\<rparr>"]
  by (simp add: mousedown_def shift_press_def startup_viewer_def addScaledVector_def
        getWorldDirection_def)

subsection \<open>The orbit controller's limits and baseline\<close>

lemma vlength_setFromSpherical:
  "0 \<le> r \<Longrightarrow> vlength (setFromSpherical (Spherical r ph th)) = r"
proof -
  assume r: "0 \<le> r"
  have "(sin ph * r * sin th) * (sin ph * r * sin th) + (cos ph * r) * (cos ph * r)
        + (sin ph * r * cos th) * (sin ph * r * cos th)
        = r\<^sup>2 * ((sin ph)\<^sup>2 * ((sin th)\<^sup>2 + (cos th)\<^sup>2) + (cos ph)\<^sup>2)"
    by (simp only: power2_eq_square algebra_simps)
  also have "\<dots> = r\<^sup>2"
    by simp
  finally show ?thesis
    using r by (simp add: vlength_def setFromSpherical_def Let_def)
qed

lemma radius_cameraSpherical: "sph_radius (cameraSpherical s) = getDistance s"
  by (simp add: cameraSpherical_def getDistance_def distanceTo_def setFromVector3_def Let_def)

lemma getDistance_controls_update:
  "0 \<le> clampDistance s (getDistance s * pending_scale s) \<Longrightarrow>
   getDistance (controls_update s) = clampDistance s (getDistance s * pending_scale s)"
proof -
  assume nonneg: "0 \<le> clampDistance s (getDistance s * pending_scale s)"
  obtain r ph th where u: "update_spherical s = Spherical r ph th"
    by (cases "update_spherical s")
  have r: "r = clampDistance s (getDistance s * pending_scale s)"
    using u by (simp add: update_spherical_def Let_def radius_cameraSpherical)
  have "getDistance (controls_update s) = vlength (setFromSpherical (Spherical r ph th))"
    by (simp add: getDistance_def distanceTo_def controls_update_def Let_def u sub_add_cancel)
  then show ?thesis
    using nonneg r by (simp add: vlength_setFromSpherical)
qed

text \<open>
  The controller's update at the end of the success callback turns the camera to the
  polar angle \<open>\<pi> / 3\<close> and keeps its distance from the target when that distance is
  within the limits: for the cube of side 10 the camera is, after the whole callback,
  as far from the target as framing put it.
\<close>

lemma onLoad_distance_cube10:
  "getDistance (onLoad cube10 startup_viewer)
     = framing_distance cube10 startup_viewer * sqrt (481 / 2500)"
proof -
  let ?s = "frame_camera cube10 startup_viewer"
  let ?d = "framing_distance cube10 startup_viewer"
  have d: "0 \<le> ?d"
    using framing_distance_cube10_bounds(1) by simp
  have g: "getDistance ?s = ?d * sqrt (481 / 2500)"
    using frame_camera_distance [OF d] by (simp add: getDistance_def)
  have lo: "1 \<le> ?d * sqrt (481 / 2500)"
  proof -
    have "1 \<le> (781 / 100) * (43 / 100 :: real)" by simp
    also have "\<dots> \<le> ?d * sqrt (481 / 2500)"
      using framing_distance_cube10_bounds(1) sqrt_ratio_bounds(1)
      by (intro mult_mono) simp_all
    finally show ?thesis .
  qed
  have hi: "?d * sqrt (481 / 2500) \<le> 50"
  proof -
    have "?d * sqrt (481 / 2500) \<le> (783 / 100) * (44 / 100)"
      using framing_distance_cube10_bounds(2) sqrt_ratio_bounds(2) d
      by (intro mult_mono) simp_all
    also have "\<dots> \<le> (50::real)" by simp
    finally show ?thesis .
  qed
  have lim: "controls_minDistance ?s = 1" "controls_maxDistance ?s = Some 50"
    "pending_scale ?s = 1"
    by (simp_all add: frame_camera_def Let_def maxDim_def cube10_def startup_viewer_def)
  have c: "clampDistance ?s (getDistance ?s * pending_scale ?s) = ?d * sqrt (481 / 2500)"
    unfolding clampDistance_def lim g using lo hi by simp
  have "getDistance (controls_update ?s) = ?d * sqrt (481 / 2500)"
    using getDistance_controls_update [of ?s] lo unfolding c by simp
  then show ?thesis
    by (simp add: onLoad_def controls_saveState_def getDistance_def Let_def)
qed




lemma update_spherical_radius:
  "controls_minDistance s \<le> sph_radius (update_spherical s)"
  by (simp add: update_spherical_def Let_def clampDistance_def)










lemma step_saved: "\<not> is_Loaded ev \<Longrightarrow> controls_saved (step ev s) = controls_saved s"
  by (cases ev) (simp_all add: handler_defs Let_def)

lemma run_saved:
  "\<forall>ev\<in>set es. \<not> is_Loaded ev \<Longrightarrow> controls_saved (run es s) = controls_saved s"
  by (induction es arbitrary: s) (simp_all add: step_saved)

lemma onLoad_saved:
  "controls_saved (onLoad box s) =
     \<lparr>position0 = camera_position (onLoad box s), target0 = controls_target (onLoad box s),
      minDistance0 = controls_minDistance (onLoad box s),
      maxDistance0 = controls_maxDistance (onLoad box s)\<rparr>"
  by (simp add: onLoad_def controls_saveState_def Let_def)

text \<open>
  Claim C7. After a framing, and after any further events other than another load (mouse
  events of the dolly, orbit input, frames, resets, resizes), the reset command puts the
  camera position, the target and the two distance limits back to the values they had
  right after that framing, which are the values of the saved baseline.
\<close>

theorem C7_reset_restores_baseline:
  "\<forall>ev\<in>set es. \<not> is_Loaded ev \<Longrightarrow>
     camera_position (resetView (run es (onLoad box s))) = camera_position (onLoad box s) \<and>
     controls_target (resetView (run es (onLoad box s))) = controls_target (onLoad box s) \<and>
     controls_minDistance (resetView (run es (onLoad box s)))
       = controls_minDistance (onLoad box s) \<and>
     controls_maxDistance (resetView (run es (onLoad box s)))
       = controls_maxDistance (onLoad box s) \<and>
     camera_position (resetView (run es (onLoad box s)))
       = position0 (controls_saved (onLoad box s)) \<and>
     controls_target (resetView (run es (onLoad box s)))
       = target0 (controls_saved (onLoad box s)) \<and>
     controls_minDistance (resetView (run es (onLoad box s)))
       = minDistance0 (controls_saved (onLoad box s)) \<and>
     controls_maxDistance (resetView (run es (onLoad box s)))
       = maxDistance0 (controls_saved (onLoad box s))"
proof -
  assume "\<forall>ev\<in>set es. \<not> is_Loaded ev"
  then have "controls_saved (run es (onLoad box s)) = controls_saved (onLoad box s)"
    by (rule run_saved)
  then show ?thesis
    by (simp add: resetView_def controls_reset_def Let_def onLoad_saved)
qed

theorem C7_reset_restores_baseline_witness:
  "\<not> list_ex is_Loaded
       [MouseDown shift_press,
        MouseMove \<lparr>button = 0, shiftKey = True, clientY = 260\<rparr>,
        MouseUp shift_press, OrbitRotate 3 1, Frame] \<and>
   camera_position
     (resetView
        (run [MouseDown shift_press,
              MouseMove \<lparr>button = 0, shiftKey = True, clientY = 260\<rparr>,
              MouseUp shift_press, OrbitRotate 3 1, Frame]
           (onLoad cube10 startup_viewer)))
     = camera_position (onLoad cube10 startup_viewer)"
proof -
  have h: "\<forall>ev\<in>set [MouseDown shift_press,
               MouseMove \<lparr>button = 0, shiftKey = True, clientY = 260\<rparr>,
               MouseUp shift_press, OrbitRotate 3 1, Frame]. \<not> is_Loaded ev"
    by simp
  have n: "\<not> list_ex is_Loaded
       [MouseDown shift_press,
        MouseMove \<lparr>button = 0, shiftKey = True, clientY = 260\<rparr>,
        MouseUp shift_press, OrbitRotate 3 1, Frame]"
    by simp
  show ?thesis
    using n C7_reset_restores_baseline [OF h, of cube10 startup_viewer] by blast
qed

end
